theory Spec2Isabelle
  imports Main
begin

section \<open>Python values and strings\<close>

text \<open>
  The records of the document store and the extracted field maps hold the values of
  JSON (what \<open>json.loads\<close> returns) and, on the stored side, dates. A Python
  \<open>dict\<close> with string keys is an association list in insertion order; a character
  is a code point below 256.

  A \<open>float\<close> is not a number, an infinity (\<open>True\<close> for the positive one), the
  negative zero, or the finite value \<open>m * 2 ^ e\<close> given by a mantissa \<open>m\<close> and an
  exponent \<open>e\<close>. A date is the number of milliseconds since the epoch.
\<close>

datatype pyfloat =
    FNaN
  | FInf bool
  | FNegZero
  | FDyadic int int

datatype pyval =
    VNone
  | VBool bool
  | VInt int
  | VFloat pyfloat
  | VStr string
  | VDate int
  | VList "pyval list"
  | VDict "(string \<times> pyval) list"

type_synonym pydict = "(string \<times> pyval) list"

text \<open>The exceptions of \<open>api/exceptions.py\<close> and the built-in ones the code can raise.\<close>

datatype exn =
    TypeError string
  | AttributeError string
  | PydanticValidationError string
  | RuntimeError string
  | ValueError string
  | EnrollmentNotFoundError string
  | InvalidUuidFormatError string
  | ValidationProcessNotFoundError string
  | ValidationServiceError string

text \<open>\<open>str(e)\<close>: the message handed to \<open>Exception.__init__\<close>.\<close>

fun exn_str :: "exn \<Rightarrow> string" where
  "exn_str (TypeError m) = m"
| "exn_str (AttributeError m) = m"
| "exn_str (PydanticValidationError m) = m"
| "exn_str (RuntimeError m) = m"
| "exn_str (ValueError v) =
     [CHR 0x27] @ v @ [CHR 0x27] @ '' is not a valid ValidationStatus''"
| "exn_str (EnrollmentNotFoundError u) = ''Enrollment UUID '' @ u @ '' not found''"
| "exn_str (InvalidUuidFormatError u) =
     ''Invalid UUID format: '' @ u @ ''. Expected standard UUID format''"
| "exn_str (ValidationProcessNotFoundError p) = ''Validation process '' @ p @ '' not found''"
| "exn_str (ValidationServiceError m) = ''Validation service error: '' @ m"

fun py_type_name :: "pyval \<Rightarrow> string" where
  "py_type_name VNone = ''NoneType''"
| "py_type_name (VBool _) = ''bool''"
| "py_type_name (VInt _) = ''int''"
| "py_type_name (VFloat _) = ''float''"
| "py_type_name (VDate _) = ''datetime.datetime''"
| "py_type_name (VStr _) = ''str''"
| "py_type_name (VList _) = ''list''"
| "py_type_name (VDict _) = ''dict''"

text \<open>\<open>d.get(k)\<close> and \<open>d.get(k, default)\<close>.\<close>

definition dict_get :: "pydict \<Rightarrow> string \<Rightarrow> pyval" where
  "dict_get d k = (case map_of d k of None \<Rightarrow> VNone | Some v \<Rightarrow> v)"

definition dict_get_default :: "pydict \<Rightarrow> string \<Rightarrow> pyval \<Rightarrow> pyval" where
  "dict_get_default d k dflt = (case map_of d k of None \<Rightarrow> dflt | Some v \<Rightarrow> v)"

text \<open>\<open>d[k] = v\<close>: an existing key keeps its place, a new key goes last.\<close>

fun dict_set :: "pydict \<Rightarrow> string \<Rightarrow> pyval \<Rightarrow> pydict" where
  "dict_set [] k v = [(k, v)]"
| "dict_set ((k', v') # d) k v = (if k' = k then (k, v) # d else (k', v') # dict_set d k v)"

text \<open>
  Python's \<open>==\<close> on numbers compares their numeric values exactly, whatever their
  types: two finite floats, and a float and an integer, are equal when they denote the
  same number; the two zeros are equal; not a number is equal to nothing, itself included.
\<close>

definition dyadic_eq :: "int \<Rightarrow> int \<Rightarrow> int \<Rightarrow> int \<Rightarrow> bool" where
  "dyadic_eq m1 e1 m2 e2 =
     (let e = min e1 e2 in m1 * 2 ^ nat (e1 - e) = m2 * 2 ^ nat (e2 - e))"

fun float_eq :: "pyfloat \<Rightarrow> pyfloat \<Rightarrow> bool" where
  "float_eq FNaN g = False"
| "float_eq (FInf a) g = (g = FInf a)"
| "float_eq FNegZero g = (case g of FNegZero \<Rightarrow> True | FDyadic m e \<Rightarrow> m = 0 | _ \<Rightarrow> False)"
| "float_eq (FDyadic m e) g =
     (case g of FNegZero \<Rightarrow> m = 0 | FDyadic m' e' \<Rightarrow> dyadic_eq m e m' e' | _ \<Rightarrow> False)"

fun float_eq_int :: "pyfloat \<Rightarrow> int \<Rightarrow> bool" where
  "float_eq_int FNaN i = False"
| "float_eq_int (FInf a) i = False"
| "float_eq_int FNegZero i = (i = 0)"
| "float_eq_int (FDyadic m e) i = dyadic_eq m e i 0"

text \<open>
  Python's \<open>==\<close> on these values. A \<open>bool\<close> is an \<open>int\<close> (\<open>True == 1\<close>) and
  numbers are compared by value; strings and dates are equal to themselves only; lists
  are compared element by element, dictionaries key by key whatever their order.
\<close>

fun py_eq :: "pyval \<Rightarrow> pyval \<Rightarrow> bool"
  and py_eq_list :: "pyval list \<Rightarrow> pyval list \<Rightarrow> bool"
  and py_eq_lookup :: "string \<Rightarrow> pyval \<Rightarrow> pydict \<Rightarrow> bool"
  and py_eq_sub :: "pydict \<Rightarrow> pydict \<Rightarrow> bool"
where
  "py_eq VNone w = (w = VNone)"
| "py_eq (VBool b) w =
     (case w of
        VBool c \<Rightarrow> b = c
      | VInt j \<Rightarrow> (if b then 1 else 0) = j
      | VFloat g \<Rightarrow> float_eq_int g (if b then 1 else 0)
      | _ \<Rightarrow> False)"
| "py_eq (VInt i) w =
     (case w of
        VBool c \<Rightarrow> i = (if c then 1 else 0)
      | VInt j \<Rightarrow> i = j
      | VFloat g \<Rightarrow> float_eq_int g i
      | _ \<Rightarrow> False)"
| "py_eq (VFloat f) w =
     (case w of
        VBool c \<Rightarrow> float_eq_int f (if c then 1 else 0)
      | VInt j \<Rightarrow> float_eq_int f j
      | VFloat g \<Rightarrow> float_eq f g
      | _ \<Rightarrow> False)"
| "py_eq (VStr s) w = (w = VStr s)"
| "py_eq (VDate t) w = (w = VDate t)"
| "py_eq (VList xs) w = (case w of VList ys \<Rightarrow> py_eq_list xs ys | _ \<Rightarrow> False)"
| "py_eq (VDict d) w =
     (case w of VDict e \<Rightarrow> length d = length e \<and> py_eq_sub d e | _ \<Rightarrow> False)"
| "py_eq_list [] ys = (ys = [])"
| "py_eq_list (x # xs) ys = (case ys of [] \<Rightarrow> False | y # ys' \<Rightarrow> py_eq x y \<and> py_eq_list xs ys')"
| "py_eq_lookup k v [] = False"
| "py_eq_lookup k v ((k', v') # e) = (if k' = k then py_eq v v' else py_eq_lookup k v e)"
| "py_eq_sub [] e = True"
| "py_eq_sub ((k, v) # d) e = (py_eq_lookup k v e \<and> py_eq_sub d e)"

text \<open>\<open>str.isspace\<close>, \<open>str.strip\<close> and \<open>str.lower\<close> on code points below 256.\<close>

definition py_isspace :: "char \<Rightarrow> bool" where
  "py_isspace c =
     (let n = (of_char c :: nat)
      in (9 \<le> n \<and> n \<le> 13) \<or> (28 \<le> n \<and> n \<le> 32) \<or> n = 133 \<or> n = 160)"

definition py_strip :: "string \<Rightarrow> string" where
  "py_strip s = rev (dropWhile py_isspace (rev (dropWhile py_isspace s)))"

definition py_lower_char :: "char \<Rightarrow> char" where
  "py_lower_char c =
     (let n = (of_char c :: nat)
      in if (65 \<le> n \<and> n \<le> 90) \<or> (192 \<le> n \<and> n \<le> 222 \<and> n \<noteq> 215)
         then char_of (n + 32) else c)"

definition py_upper_char :: "char \<Rightarrow> char" where
  "py_upper_char c =
     (let n = (of_char c :: nat)
      in if (97 \<le> n \<and> n \<le> 122) \<or> (224 \<le> n \<and> n \<le> 254 \<and> n \<noteq> 247)
         then char_of (n - 32) else c)"

definition py_lower :: "string \<Rightarrow> string" where
  "py_lower s = map py_lower_char s"

section \<open>The identifier format predicate\<close>

text \<open>
  \<open>re.match(pattern, s, re.IGNORECASE)\<close> for the patterns the service uses: a sequence
  of anchors, literal characters and character sets. \<open>^\<close> holds at position 0;
  \<open>$\<close> holds at the end of the string and also just before a newline that is the last
  character; \<open>re.match\<close> itself does not ask the pattern to reach the end.
\<close>

datatype re_item =
    Bol
  | Eol
  | Lit char
  | CharSet "(char \<times> char) list"

definition in_ranges :: "(char \<times> char) list \<Rightarrow> char \<Rightarrow> bool" where
  "in_ranges rs c =
     list_ex (\<lambda>(lo, hi). (of_char lo :: nat) \<le> of_char c \<and> (of_char c :: nat) \<le> of_char hi) rs"

definition set_matches :: "bool \<Rightarrow> (char \<times> char) list \<Rightarrow> char \<Rightarrow> bool" where
  "set_matches ignorecase rs c =
     (in_ranges rs c \<or>
      (ignorecase \<and> (in_ranges rs (py_lower_char c) \<or> in_ranges rs (py_upper_char c))))"

definition lit_matches :: "bool \<Rightarrow> char \<Rightarrow> char \<Rightarrow> bool" where
  "lit_matches ignorecase l c =
     (c = l \<or> (ignorecase \<and> py_lower_char c = py_lower_char l))"

fun re_match_at :: "bool \<Rightarrow> re_item list \<Rightarrow> nat \<Rightarrow> string \<Rightarrow> bool" where
  "re_match_at ic [] pos s = True"
| "re_match_at ic (Bol # items) pos s = (pos = 0 \<and> re_match_at ic items pos s)"
| "re_match_at ic (Eol # items) pos s =
     ((s = [] \<or> s = [CHR 0x0A]) \<and> re_match_at ic items pos s)"
| "re_match_at ic (Lit l # items) pos [] = False"
| "re_match_at ic (Lit l # items) pos (c # s) =
     (lit_matches ic l c \<and> re_match_at ic items (Suc pos) s)"
| "re_match_at ic (CharSet rs # items) pos [] = False"
| "re_match_at ic (CharSet rs # items) pos (c # s) =
     (set_matches ic rs c \<and> re_match_at ic items (Suc pos) s)"

definition re_match :: "re_item list \<Rightarrow> bool \<Rightarrow> string \<Rightarrow> bool" where
  "re_match pattern ignorecase s = re_match_at ignorecase pattern 0 s"

text \<open>\<open>[0-9a-f]\<close>, and \<open>x{n}\<close> as \<open>n\<close> copies of \<open>x\<close>.\<close>

definition hex_set :: re_item where
  "hex_set = CharSet [(CHR ''0'', CHR ''9''), (CHR ''a'', CHR ''f'')]"

definition uuid_pattern :: "re_item list" where
  "uuid_pattern =
     [Bol] @ replicate 8 hex_set @ [Lit CHR ''-''] @ replicate 4 hex_set @ [Lit CHR ''-'']
     @ replicate 4 hex_set @ [Lit CHR ''-''] @ replicate 4 hex_set @ [Lit CHR ''-'']
     @ replicate 12 hex_set @ [Eol]"

text \<open>
  \<open>EnrollmentValidationService._validate_uuid_format\<close>. The argument is \<open>None\<close> or a
  string; \<open>re.match\<close> raises \<open>TypeError\<close> on \<open>None\<close> (the text of its message
  differs between Python versions).
\<close>

definition validate_uuid_format :: "string option \<Rightarrow> exn + bool" where
  "validate_uuid_format uuid_str =
     (case uuid_str of
        None \<Rightarrow> Inl (TypeError ''expected string or bytes-like object'')
      | Some s \<Rightarrow> Inr (re_match uuid_pattern True s))"

section \<open>The process model\<close>

text \<open>\<open>api/models.py\<close>: the status enumeration with its string values, and the process.\<close>

datatype ValidationStatus = PENDING | IN_PROGRESS | COMPLETED | FAILED

fun status_value :: "ValidationStatus \<Rightarrow> string" where
  "status_value PENDING = ''pending''"
| "status_value IN_PROGRESS = ''in_progress''"
| "status_value COMPLETED = ''completed''"
| "status_value FAILED = ''failed''"

text \<open>\<open>ValidationStatus(text)\<close>; \<open>None\<close> stands for the \<open>ValueError\<close> of an unknown value.\<close>

definition ValidationStatus_of :: "string \<Rightarrow> ValidationStatus option" where
  "ValidationStatus_of v =
     (if v = ''pending'' then Some PENDING
      else if v = ''in_progress'' then Some IN_PROGRESS
      else if v = ''completed'' then Some COMPLETED
      else if v = ''failed'' then Some FAILED
      else None)"

record ValidationProcess =
  process_id :: string
  uuid_str :: string
  email :: "string option"
  status :: ValidationStatus
  created_at :: nat
  updated_at :: "nat option"
  error_message :: "string option"
  result_data :: "pydict option"

section \<open>The in-memory process repository\<close>

text \<open>
  \<open>InMemoryValidationProcessRepository\<close>. The dictionary \<open>_processes\<close> is a map; the
  identifier drawn by \<open>uuid.uuid4()\<close> and the time read by \<open>datetime.now\<close> are
  arguments. Every operation returns the store it leaves behind.
\<close>

type_synonym process_store = "string \<rightharpoonup> ValidationProcess"

definition inmem_create ::
  "string \<Rightarrow> nat \<Rightarrow> process_store \<Rightarrow> string \<Rightarrow> string option \<Rightarrow> process_store \<times> ValidationProcess"
where
  "inmem_create new_id now ps u em =
     (let process = \<lparr>process_id = new_id, uuid_str = u, email = em, status = PENDING,
                      created_at = now, updated_at = None, error_message = None,
                      result_data = None\<rparr>
      in (ps(new_id \<mapsto> process), process))"

definition inmem_get_by_id :: "process_store \<Rightarrow> string \<Rightarrow> ValidationProcess option" where
  "inmem_get_by_id ps pid = ps pid"

definition inmem_update_status ::
  "nat \<Rightarrow> process_store \<Rightarrow> string \<Rightarrow> ValidationStatus \<Rightarrow> string option \<Rightarrow> pydict option
   \<Rightarrow> process_store \<times> (exn + ValidationProcess)"
where
  "inmem_update_status now ps pid st err res =
     (case inmem_get_by_id ps pid of
        None \<Rightarrow> (ps, Inl (ValidationProcessNotFoundError pid))
      | Some process \<Rightarrow>
          (let updated_process =
                 \<lparr>process_id = process_id process, uuid_str = uuid_str process,
                  email = email process, status = st, created_at = created_at process,
                  updated_at = Some now, error_message = err, result_data = res\<rparr>
           in (ps(pid \<mapsto> updated_process), Inr updated_process)))"

section \<open>The durable process repository\<close>

text \<open>
  \<open>MongoValidationProcessRepository\<close>. The collection \<open>validation_processes\<close> is a map
  from the \<open>process_id\<close> field to the document; a document stores the status as its
  string value. The connection does not fail in this model.
\<close>

record process_doc =
  d_process_id :: string
  d_uuid_str :: string
  d_email :: "string option"
  d_status :: string
  d_created_at :: nat
  d_updated_at :: "nat option"
  d_error_message :: "string option"
  d_result_data :: "pydict option"

type_synonym collection = "string \<rightharpoonup> process_doc"

definition find_one :: "collection \<Rightarrow> string \<Rightarrow> process_doc option" where
  "find_one coll pid = coll pid"

definition insert_one :: "collection \<Rightarrow> process_doc \<Rightarrow> collection" where
  "insert_one coll doc = coll(d_process_id doc \<mapsto> doc)"

text \<open>\<open>update_one(filter, {"$set": update_data})\<close>: only the keys of \<open>update_data\<close> change.\<close>

record update_data =
  set_status :: string
  set_updated_at :: nat
  set_error_message :: "string option"
  set_result_data :: "pydict option"

definition apply_set :: "update_data \<Rightarrow> process_doc \<Rightarrow> process_doc" where
  "apply_set upd doc =
     doc\<lparr>d_status := set_status upd,
         d_updated_at := Some (set_updated_at upd),
         d_error_message :=
           (case set_error_message upd of None \<Rightarrow> d_error_message doc | Some m \<Rightarrow> Some m),
         d_result_data :=
           (case set_result_data upd of None \<Rightarrow> d_result_data doc | Some r \<Rightarrow> Some r)\<rparr>"

definition update_one :: "collection \<Rightarrow> string \<Rightarrow> update_data \<Rightarrow> collection" where
  "update_one coll pid upd =
     (case coll pid of None \<Rightarrow> coll | Some doc \<Rightarrow> coll(pid \<mapsto> apply_set upd doc))"

text \<open>The conversion of a document to a \<open>ValidationProcess\<close>.\<close>

definition doc_to_process :: "process_doc \<Rightarrow> ValidationProcess option" where
  "doc_to_process doc =
     (case ValidationStatus_of (d_status doc) of
        None \<Rightarrow> None
      | Some st \<Rightarrow>
          Some \<lparr>process_id = d_process_id doc, uuid_str = d_uuid_str doc, email = d_email doc,
                status = st, created_at = d_created_at doc, updated_at = d_updated_at doc,
                error_message = d_error_message doc, result_data = d_result_data doc\<rparr>)"

definition mongo_create ::
  "string \<Rightarrow> nat \<Rightarrow> collection \<Rightarrow> string \<Rightarrow> string option \<Rightarrow> collection \<times> ValidationProcess"
where
  "mongo_create new_id now coll u em =
     (let process = \<lparr>process_id = new_id, uuid_str = u, email = em, status = PENDING,
                      created_at = now, updated_at = None, error_message = None,
                      result_data = None\<rparr>;
          process_dict =
            \<lparr>d_process_id = process_id process, d_uuid_str = uuid_str process,
             d_email = email process, d_status = status_value (status process),
             d_created_at = created_at process, d_updated_at = updated_at process,
             d_error_message = error_message process, d_result_data = result_data process\<rparr>
      in (insert_one coll process_dict, process))"

text \<open>\<open>get_by_id\<close> turns every exception into \<open>None\<close>.\<close>

definition mongo_get_by_id :: "collection \<Rightarrow> string \<Rightarrow> ValidationProcess option" where
  "mongo_get_by_id coll pid =
     (case find_one coll pid of None \<Rightarrow> None | Some doc \<Rightarrow> doc_to_process doc)"

definition mongo_update_status ::
  "nat \<Rightarrow> collection \<Rightarrow> string \<Rightarrow> ValidationStatus \<Rightarrow> string option \<Rightarrow> pydict option
   \<Rightarrow> collection \<times> (exn + ValidationProcess)"
where
  "mongo_update_status now coll pid st err res =
     (case find_one coll pid of
        None \<Rightarrow> (coll, Inl (ValidationProcessNotFoundError pid))
      | Some existing_doc \<Rightarrow>
          (let upd = \<lparr>set_status = status_value st, set_updated_at = now,
                      set_error_message = err, set_result_data = res\<rparr>;
               coll' = update_one coll pid upd
           in case find_one coll' pid of
                None \<Rightarrow>
                  (coll', Inl (TypeError ([CHR 0x27] @ ''NoneType'' @ [CHR 0x27]
                                          @ '' object is not subscriptable'')))
              | Some updated_doc \<Rightarrow>
                  (case doc_to_process updated_doc of
                     None \<Rightarrow> (coll', Inl (ValueError (d_status updated_doc)))
                   | Some p \<Rightarrow> (coll', Inr p))))"

section \<open>The validation service\<close>

text \<open>
  \<open>EnrollmentValidationService\<close> over an enrollment repository and the in-memory process
  repository. The world holds what the enrollment repository answers (\<open>get_by_uuid\<close>
  returns \<open>None\<close> or the document), the process store, the background tasks created,
  and two records kept for the proofs: every call a repository receives, in order, and
  the process store after every write.
\<close>

datatype repo_call =
    EnrollmentGetByUuid string
  | ProcessCreate string pyval
  | ProcessGetById string
  | ProcessUpdateStatus string ValidationStatus "string option" "pydict option"

record world =
  enrollments :: "string \<rightharpoonup> pydict"
  processes :: process_store
  scheduled :: "string list"
  calls :: "repo_call list"
  history :: "process_store list"

definition enrollment_get_by_uuid :: "world \<Rightarrow> string \<Rightarrow> world \<times> pydict option" where
  "enrollment_get_by_uuid w u =
     (w\<lparr>calls := calls w @ [EnrollmentGetByUuid u]\<rparr>, enrollments w u)"

text \<open>
  \<open>ValidationProcess(email=...)\<close> accepts \<open>None\<close> or a string for the field
  \<open>email: Optional[str]\<close>; any other value is a validation error of the model.
\<close>

definition email_field :: "pyval \<Rightarrow> exn + string option" where
  "email_field v =
     (case v of
        VNone \<Rightarrow> Inr None
      | VStr s \<Rightarrow> Inr (Some s)
      | _ \<Rightarrow> Inl (PydanticValidationError
                   ''1 validation error for ValidationProcess: email: Input should be a valid string''))"

definition process_create ::
  "string \<Rightarrow> nat \<Rightarrow> world \<Rightarrow> string \<Rightarrow> pyval \<Rightarrow> world \<times> (exn + ValidationProcess)"
where
  "process_create new_id now w u em =
     (let w1 = w\<lparr>calls := calls w @ [ProcessCreate u em]\<rparr>
      in case email_field em of
           Inl e \<Rightarrow> (w1, Inl e)
         | Inr em' \<Rightarrow>
             (case inmem_create new_id now (processes w1) u em' of
                (ps, process) \<Rightarrow>
                  (w1\<lparr>processes := ps, history := history w1 @ [ps]\<rparr>, Inr process)))"

definition process_get_by_id :: "world \<Rightarrow> string \<Rightarrow> world \<times> ValidationProcess option" where
  "process_get_by_id w pid =
     (w\<lparr>calls := calls w @ [ProcessGetById pid]\<rparr>, inmem_get_by_id (processes w) pid)"

definition process_update_status ::
  "nat \<Rightarrow> world \<Rightarrow> string \<Rightarrow> ValidationStatus \<Rightarrow> string option \<Rightarrow> pydict option
   \<Rightarrow> world \<times> (exn + ValidationProcess)"
where
  "process_update_status now w pid st err res =
     (let w1 = w\<lparr>calls := calls w @ [ProcessUpdateStatus pid st err res]\<rparr>
      in case inmem_update_status now (processes w1) pid st err res of
           (ps, Inl e) \<Rightarrow> (w1, Inl e)
         | (ps, Inr p) \<Rightarrow> (w1\<lparr>processes := ps, history := history w1 @ [ps]\<rparr>, Inr p))"

text \<open>A dictionary is false when it is empty.\<close>

definition dict_truthy :: "pydict option \<Rightarrow> bool" where
  "dict_truthy d = (case d of None \<Rightarrow> False | Some kvs \<Rightarrow> kvs \<noteq> [])"

text \<open>
  \<open>initiate_validation\<close>, with the fresh process identifier and the creation time as
  arguments. \<open>asyncio.create_task\<close> appends the process identifier to \<open>scheduled\<close>.
\<close>

definition initiate_validation ::
  "string \<Rightarrow> nat \<Rightarrow> world \<Rightarrow> string \<Rightarrow> world \<times> (exn + ValidationProcess)"
where
  "initiate_validation new_id now w u =
     (case validate_uuid_format (Some u) of
        Inl e \<Rightarrow> (w, Inl e)
      | Inr ok \<Rightarrow>
          if \<not> ok then (w, Inl (InvalidUuidFormatError u))
          else
            (case enrollment_get_by_uuid w u of
               (w1, enrollment_data) \<Rightarrow>
                 if \<not> dict_truthy enrollment_data then (w1, Inl (EnrollmentNotFoundError u))
                 else
                   (case process_create new_id now w1 u
                           (dict_get (case enrollment_data of Some d \<Rightarrow> d | None \<Rightarrow> []) ''email'') of
                      (w2, Inl e) \<Rightarrow>
                        (w2, Inl (ValidationServiceError
                                    (''Failed to initiate validation: '' @ exn_str e)))
                    | (w2, Inr process) \<Rightarrow>
                        (w2\<lparr>scheduled := scheduled w2 @ [process_id process]\<rparr>, Inr process))))"

definition get_validation_status :: "world \<Rightarrow> string \<Rightarrow> world \<times> ValidationProcess option" where
  "get_validation_status w pid = process_get_by_id w pid"

text \<open>\<open>len(x)\<close> and the method lookup \<open>x.get\<close>.\<close>

definition py_len :: "pyval \<Rightarrow> exn + nat" where
  "py_len v =
     (case v of
        VStr s \<Rightarrow> Inr (length s)
      | VList xs \<Rightarrow> Inr (length xs)
      | VDict d \<Rightarrow> Inr (length d)
      | _ \<Rightarrow> Inl (TypeError (''object of type '' @ [CHR 0x27] @ py_type_name v @ [CHR 0x27]
                              @ '' has no len()'')))"

definition py_get_method :: "pyval \<Rightarrow> exn + pydict" where
  "py_get_method v =
     (case v of
        VDict d \<Rightarrow> Inr d
      | _ \<Rightarrow> Inl (AttributeError ([CHR 0x27] @ py_type_name v @ [CHR 0x27]
                                   @ '' object has no attribute '' @ [CHR 0x27] @ ''get''
                                   @ [CHR 0x27])))"

text \<open>
  The result payload of \<open>_perform_validation\<close>; its entries are evaluated in order, so
  \<open>len(students_info)\<close> fails before the lookup in \<open>verification\<close> is tried. \<open>ts\<close> is
  the text of \<open>datetime.now(timezone.utc).isoformat()\<close>.
\<close>

definition build_result_data :: "ValidationProcess \<Rightarrow> pydict \<Rightarrow> string \<Rightarrow> exn + pydict" where
  "build_result_data process enrollment_data ts =
     (let students_info = dict_get_default enrollment_data ''students_info'' (VList [])
      in case py_len students_info of
           Inl e \<Rightarrow> Inl e
         | Inr n \<Rightarrow>
             (case py_get_method (dict_get_default enrollment_data ''verification'' (VDict [])) of
                Inl e \<Rightarrow> Inl e
              | Inr verification \<Rightarrow>
                  Inr [(''enrollment_validated'', VBool True),
                       (''enrollment_uuid'', VStr (uuid_str process)),
                       (''email'', dict_get enrollment_data ''email''),
                       (''phone'', dict_get enrollment_data ''phone''),
                       (''students_count'', VInt (int n)),
                       (''verification_status'',
                          dict_get_default verification ''verified'' (VBool False)),
                       (''validation_timestamp'', VStr ts),
                       (''validation_notes'',
                          VStr ''Basic enrollment record validation completed'')]))"

text \<open>
  The body of the \<open>try\<close> block of \<open>_perform_validation\<close>. \<open>t1\<close> and \<open>t2\<close> are the
  times read by its first and second \<open>update_status\<close>. The two-second sleep changes
  nothing in the world and is not modelled.
\<close>

definition validation_body ::
  "nat \<Rightarrow> nat \<Rightarrow> string \<Rightarrow> world \<Rightarrow> string \<Rightarrow> world \<times> (exn + unit)"
where
  "validation_body t1 t2 ts w pid =
     (case process_update_status t1 w pid IN_PROGRESS None None of
        (w1, Inl e) \<Rightarrow> (w1, Inl e)
      | (w1, Inr _) \<Rightarrow>
          (case process_get_by_id w1 pid of
             (w2, None) \<Rightarrow> (w2, Inr ())
           | (w2, Some process) \<Rightarrow>
               (case enrollment_get_by_uuid w2 (uuid_str process) of
                  (w3, enrollment_data) \<Rightarrow>
                    if \<not> dict_truthy enrollment_data then
                      (case process_update_status t2 w3 pid FAILED
                              (Some ''Enrollment not found during validation'') None of
                         (w4, Inl e) \<Rightarrow> (w4, Inl e)
                       | (w4, Inr _) \<Rightarrow> (w4, Inr ()))
                    else
                      (case build_result_data process
                              (case enrollment_data of Some d \<Rightarrow> d | None \<Rightarrow> []) ts of
                         Inl e \<Rightarrow> (w3, Inl e)
                       | Inr payload \<Rightarrow>
                           (case process_update_status t2 w3 pid COMPLETED None
                                   (Some payload) of
                              (w4, Inl e) \<Rightarrow> (w4, Inl e)
                            | (w4, Inr _) \<Rightarrow> (w4, Inr ()))))))"

text \<open>
  \<open>_perform_validation\<close>: the \<open>try\<close> block and its handler \<open>except Exception\<close>, whose
  own \<open>update_status\<close> reads the time \<open>t3\<close>. An exception of the handler leaves the
  function.
\<close>

definition perform_validation ::
  "nat \<Rightarrow> nat \<Rightarrow> nat \<Rightarrow> string \<Rightarrow> world \<Rightarrow> string \<Rightarrow> world \<times> (exn + unit)"
where
  "perform_validation t1 t2 t3 ts w pid =
     (case validation_body t1 t2 ts w pid of
        (w', Inr _) \<Rightarrow> (w', Inr ())
      | (w', Inl e) \<Rightarrow>
          (case process_update_status t3 w' pid FAILED (Some (exn_str e)) None of
             (w'', Inl e') \<Rightarrow> (w'', Inl e')
           | (w'', Inr _) \<Rightarrow> (w'', Inr ())))"

section \<open>The service factory and the start of the application\<close>

text \<open>
  \<open>ValidationServiceFactory\<close> and the start-up part of \<open>lifespan\<close>. Whether a
  repository constructor raises is decided outside the program, so the outcome of each
  constructor call is an argument: \<open>None\<close> when it returns, the exception otherwise.
\<close>

datatype enrollment_backend = MongoEnrollmentRepository

datatype process_backend = MongoValidationProcessRepository | InMemoryValidationProcessRepository

record service =
  enrollment_repository :: enrollment_backend
  process_repository :: process_backend

definition create_mongo_service :: "exn option \<Rightarrow> exn option \<Rightarrow> exn + service" where
  "create_mongo_service enrollment_ctor process_ctor =
     (case enrollment_ctor of
        Some e \<Rightarrow> Inl e
      | None \<Rightarrow>
          (case process_ctor of
             Some e \<Rightarrow> Inl e
           | None \<Rightarrow> Inr \<lparr>enrollment_repository = MongoEnrollmentRepository,
                          process_repository = MongoValidationProcessRepository\<rparr>))"

definition create_hybrid_service :: "exn option \<Rightarrow> exn option \<Rightarrow> exn + service" where
  "create_hybrid_service enrollment_ctor process_ctor =
     (case enrollment_ctor of
        Some e \<Rightarrow> Inl e
      | None \<Rightarrow>
          (case process_ctor of
             Some e \<Rightarrow> Inl e
           | None \<Rightarrow> Inr \<lparr>enrollment_repository = MongoEnrollmentRepository,
                          process_repository = InMemoryValidationProcessRepository\<rparr>))"

definition create_default_service :: "exn option \<Rightarrow> exn option \<Rightarrow> exn + service" where
  "create_default_service enrollment_ctor process_ctor =
     create_mongo_service enrollment_ctor process_ctor"

text \<open>
  The outcomes of the constructor calls of one start: the two of
  \<open>create_mongo_service\<close>, then the two of \<open>create_hybrid_service\<close>.
\<close>

record construction =
  mongo_enrollment_ctor :: "exn option"
  mongo_process_ctor :: "exn option"
  hybrid_enrollment_ctor :: "exn option"
  hybrid_process_ctor :: "exn option"

definition lifespan_startup :: "construction \<Rightarrow> exn + service" where
  "lifespan_startup c =
     (case create_mongo_service (mongo_enrollment_ctor c) (mongo_process_ctor c) of
        Inr validation_service \<Rightarrow> Inr validation_service
      | Inl e \<Rightarrow>
          (case create_hybrid_service (hybrid_enrollment_ctor c) (hybrid_process_ctor c) of
             Inr validation_service \<Rightarrow> Inr validation_service
           | Inl fallback_error \<Rightarrow>
               Inl (RuntimeError ''Unable to initialize any validation service backend'')))"

section \<open>The comparator\<close>

text \<open>
  \<open>compare_student_data\<close> of \<open>spike/document_mongodb_tools.py\<close>. The lookup
  \<open>get_student_by_id\<close> is an argument. An anomaly holds the field, the stored value and
  the extracted value (its \<open>type\<close> is always \<open>mismatch\<close>); a match holds the field and
  the stored value.
\<close>

record comparison =
  mongodb_record :: pydict
  certificate_data :: pydict
  matches :: "(string \<times> pyval) list"
  anomalies :: "(string \<times> pyval \<times> pyval) list"
  additional_info :: pydict
  total_anomalies :: nat

datatype compare_outcome = CompareError string | CompareSuccess comparison

text \<open>The normalisation applied when both values are strings.\<close>

definition normalize_pair :: "pyval \<Rightarrow> pyval \<Rightarrow> pyval \<times> pyval" where
  "normalize_pair cert_value db_value =
     (case (cert_value, db_value) of
        (VStr c, VStr d) \<Rightarrow> (VStr (py_lower (py_strip c)), VStr (py_lower (py_strip d)))
      | _ \<Rightarrow> (cert_value, db_value))"

type_synonym compare_acc =
  "(string \<times> pyval \<times> pyval) list \<times> (string \<times> pyval) list \<times> pydict"

text \<open>One round of the loop over \<open>extracted_data.items()\<close>.\<close>

definition compare_field :: "pydict \<Rightarrow> compare_acc \<Rightarrow> string \<times> pyval \<Rightarrow> compare_acc" where
  "compare_field rec acc item =
     (case (acc, item) of
        ((anoms, mats, addl), (key, cert_value)) \<Rightarrow>
          (let db_value = dict_get rec key
           in if db_value \<noteq> VNone then
                (case normalize_pair cert_value db_value of
                   (cert_val_norm, db_val_norm) \<Rightarrow>
                     if \<not> py_eq cert_val_norm db_val_norm
                     then (anoms @ [(key, db_value, cert_value)], mats, addl)
                     else (anoms, mats @ [(key, db_value)], addl))
              else (anoms, mats, dict_set addl key cert_value)))"

definition compare_student_data ::
  "(string \<Rightarrow> pydict option) \<Rightarrow> string \<Rightarrow> pydict \<Rightarrow> compare_outcome"
where
  "compare_student_data get_student_by_id student_id extracted_data =
     (case get_student_by_id student_id of
        None \<Rightarrow> CompareError (''Student ID '' @ student_id @ '' not found in MongoDB'')
      | Some rec \<Rightarrow>
          (case foldl (compare_field rec) ([], [], []) extracted_data of
             (anoms, mats, addl) \<Rightarrow>
               CompareSuccess
                 \<lparr>mongodb_record = rec, certificate_data = extracted_data, matches = mats,
                  anomalies = anoms, additional_info = addl,
                  total_anomalies = length anoms\<rparr>))"

section \<open>The identifier shape of the specification\<close>

text \<open>
  The shape the specification asks for, in its own words: 36 characters, in groups of
  8, 4, 4, 4 and 12 hexadecimal digits of either case, with a hyphen between the groups.
  The predicate of the code is compared with it below.
\<close>

definition is_hex_digit :: "char \<Rightarrow> bool" where
  "is_hex_digit c =
     in_ranges [(CHR ''0'', CHR ''9''), (CHR ''a'', CHR ''f''), (CHR ''A'', CHR ''F'')] c"

definition spec_uuid_shape :: "string \<Rightarrow> bool" where
  "spec_uuid_shape s =
     (length s = 36
      \<and> list_all is_hex_digit (take 8 s) \<and> s ! 8 = CHR ''-''
      \<and> list_all is_hex_digit (take 4 (drop 9 s)) \<and> s ! 13 = CHR ''-''
      \<and> list_all is_hex_digit (take 4 (drop 14 s)) \<and> s ! 18 = CHR ''-''
      \<and> list_all is_hex_digit (take 4 (drop 19 s)) \<and> s ! 23 = CHR ''-''
      \<and> list_all is_hex_digit (take 12 (drop 24 s)))"

section \<open>The invariant of a process and the snapshots of the background step\<close>

text \<open>
  The invariant of the data model: a terminal process has exactly one of the error
  message and the result payload, any other process has neither.
\<close>

definition process_invariant :: "ValidationProcess \<Rightarrow> bool" where
  "process_invariant p =
     (if status p = COMPLETED \<or> status p = FAILED
      then (error_message p = None) \<noteq> (result_data p = None)
      else error_message p = None \<and> result_data p = None)"

text \<open>
  The two snapshots \<open>_perform_validation\<close> stores for a process \<open>p\<close> it finds: the
  one of its first update, and the one of its last, which depends on what the enrollment
  repository answers for the subject of \<open>p\<close>.
\<close>

definition started :: "nat \<Rightarrow> ValidationProcess \<Rightarrow> ValidationProcess" where
  "started t1 p =
     p\<lparr>status := IN_PROGRESS, updated_at := Some t1, error_message := None,
       result_data := None\<rparr>"

definition finished ::
  "nat \<Rightarrow> nat \<Rightarrow> nat \<Rightarrow> string \<Rightarrow> pydict option \<Rightarrow> ValidationProcess \<Rightarrow> ValidationProcess"
where
  "finished t1 t2 t3 ts enrollment_data p =
     (if \<not> dict_truthy enrollment_data
      then p\<lparr>status := FAILED, updated_at := Some t2,
             error_message := Some ''Enrollment not found during validation'',
             result_data := None\<rparr>
      else case build_result_data (started t1 p)
                  (case enrollment_data of Some d \<Rightarrow> d | None \<Rightarrow> []) ts of
             Inl e \<Rightarrow> p\<lparr>status := FAILED, updated_at := Some t3,
                         error_message := Some (exn_str e), result_data := None\<rparr>
           | Inr payload \<Rightarrow> p\<lparr>status := COMPLETED, updated_at := Some t2,
                              error_message := None, result_data := Some payload\<rparr>)"

section \<open>The comparison rule\<close>

text \<open>
  When two values agree: two strings when they are equal after trimming and
  lower-casing, any other pair when Python's \<open>==\<close> holds.
\<close>

definition values_agree :: "pyval \<Rightarrow> pyval \<Rightarrow> bool" where
  "values_agree cert_value db_value =
     (case (cert_value, db_value) of
        (VStr c, VStr d) \<Rightarrow> py_lower (py_strip c) = py_lower (py_strip d)
      | _ \<Rightarrow> py_eq cert_value db_value)"

text \<open>
  The values without numbers other than integers and without dictionaries. On them
  Python's \<open>==\<close> is equality of values (\<open>py_eq_plain\<close>).
\<close>

fun plain :: "pyval \<Rightarrow> bool" where
  "plain VNone = True"
| "plain (VBool _) = False"
| "plain (VInt _) = True"
| "plain (VFloat _) = False"
| "plain (VStr _) = True"
| "plain (VDate _) = True"
| "plain (VList xs) = list_all plain xs"
| "plain (VDict _) = False"

section \<open>Running the two process repositories side by side\<close>

text \<open>
  The two stores hold the same processes when every document converts to the process
  the in-memory store has under the same identifier, and neither has a process the
  other lacks.
\<close>

definition repo_equiv :: "process_store \<Rightarrow> collection \<Rightarrow> bool" where
  "repo_equiv ps coll =
     (\<forall>pid. case coll pid of
              None \<Rightarrow> ps pid = None
            | Some doc \<Rightarrow> doc_to_process doc \<noteq> None \<and> ps pid = doc_to_process doc)"

text \<open>
  A call of a process repository, with the generated identifier and the time it reads,
  and what the call returns; a sequence of calls run against either backend.
\<close>

datatype repo_op =
    OpCreate string nat string "string option"
  | OpGetById string
  | OpUpdateStatus nat string ValidationStatus "string option" "pydict option"

datatype repo_result =
    Created ValidationProcess
  | Found "ValidationProcess option"
  | Updated "exn + ValidationProcess"

fun inmem_apply :: "repo_op \<Rightarrow> process_store \<Rightarrow> process_store \<times> repo_result" where
  "inmem_apply (OpCreate new_id now u em) ps =
     (case inmem_create new_id now ps u em of (ps', p) \<Rightarrow> (ps', Created p))"
| "inmem_apply (OpGetById pid) ps = (ps, Found (inmem_get_by_id ps pid))"
| "inmem_apply (OpUpdateStatus now pid st err res) ps =
     (case inmem_update_status now ps pid st err res of (ps', r) \<Rightarrow> (ps', Updated r))"

fun mongo_apply :: "repo_op \<Rightarrow> collection \<Rightarrow> collection \<times> repo_result" where
  "mongo_apply (OpCreate new_id now u em) coll =
     (case mongo_create new_id now coll u em of (coll', p) \<Rightarrow> (coll', Created p))"
| "mongo_apply (OpGetById pid) coll = (coll, Found (mongo_get_by_id coll pid))"
| "mongo_apply (OpUpdateStatus now pid st err res) coll =
     (case mongo_update_status now coll pid st err res of (coll', r) \<Rightarrow> (coll', Updated r))"

fun inmem_run :: "repo_op list \<Rightarrow> process_store \<Rightarrow> process_store \<times> repo_result list" where
  "inmem_run [] ps = (ps, [])"
| "inmem_run (op # ops) ps =
     (case inmem_apply op ps of (ps', r) \<Rightarrow>
        (case inmem_run ops ps' of (ps'', rs) \<Rightarrow> (ps'', r # rs)))"

fun mongo_run :: "repo_op list \<Rightarrow> collection \<Rightarrow> collection \<times> repo_result list" where
  "mongo_run [] coll = (coll, [])"
| "mongo_run (op # ops) coll =
     (case mongo_apply op coll of (coll', r) \<Rightarrow>
        (case mongo_run ops coll' of (coll'', rs) \<Rightarrow> (coll'', r # rs)))"

text \<open>
  An \<open>update_status\<close> re-supplies what is stored when each of the error message and
  the result payload is either given to the call or unset in the stored process.
\<close>

fun resupplied :: "repo_op \<Rightarrow> process_store \<Rightarrow> bool" where
  "resupplied (OpUpdateStatus now pid st err res) ps =
     (case ps pid of
        None \<Rightarrow> True
      | Some p \<Rightarrow> (err \<noteq> None \<or> error_message p = None) \<and> (res \<noteq> None \<or> result_data p = None))"
| "resupplied _ ps = True"

fun all_resupplied :: "repo_op list \<Rightarrow> process_store \<Rightarrow> bool" where
  "all_resupplied [] ps = True"
| "all_resupplied (op # ops) ps = (resupplied op ps \<and> all_resupplied ops (fst (inmem_apply op ps)))"

section \<open>Sample data\<close>

definition sample_uuid :: string where
  "sample_uuid = ''12345678-1234-5678-9012-123456789abc''"

definition sample_process :: ValidationProcess where
  "sample_process =
     \<lparr>process_id = ''p1'', uuid_str = sample_uuid, email = Some ''a@b.c'', status = FAILED,
      created_at = 1, updated_at = Some 2, error_message = Some ''boom'', result_data = None\<rparr>"

definition sample_doc :: process_doc where
  "sample_doc =
     \<lparr>d_process_id = ''p1'', d_uuid_str = sample_uuid, d_email = Some ''a@b.c'',
      d_status = ''failed'', d_created_at = 1, d_updated_at = Some 2,
      d_error_message = Some ''boom'', d_result_data = None\<rparr>"

definition pending_process :: ValidationProcess where
  "pending_process =
     \<lparr>process_id = ''p1'', uuid_str = sample_uuid, email = Some ''a@b.c'', status = PENDING,
      created_at = 1, updated_at = None, error_message = None, result_data = None\<rparr>"

definition sample_enrollment :: pydict where
  "sample_enrollment =
     [(''uuid_str'', VStr sample_uuid), (''email'', VStr ''a@b.c''),
      (''students_info'', VList [VDict [(''first_name'', VStr ''Jane'')]]),
      (''verification'', VDict [(''verified'', VBool True)])]"

definition sample_world :: world where
  "sample_world =
     \<lparr>enrollments = [sample_uuid \<mapsto> sample_enrollment],
      processes = [''p1'' \<mapsto> pending_process], scheduled = [''p1''], calls = [],
      history = []\<rparr>"

definition sample_stamp :: string where
  "sample_stamp = ''2024-01-01T00:00:00+00:00''"

definition empty_world :: world where
  "empty_world =
     \<lparr>enrollments = Map.empty, processes = Map.empty, scheduled = [], calls = [],
      history = []\<rparr>"

definition sample_students :: "string \<Rightarrow> pydict option" where
  "sample_students = [''s1'' \<mapsto> [(''name'', VStr ''Jane Doe''), (''grade'', VInt 1), (''nickname'', VNone)]]"

definition agreeing_ops :: "repo_op list" where
  "agreeing_ops =
     [OpCreate ''p1'' 1 sample_uuid (Some ''a@b.c''),
      OpUpdateStatus 2 ''p1'' IN_PROGRESS None None,
      OpUpdateStatus 3 ''p1'' FAILED (Some ''boom'') None,
      OpGetById ''p1'',
      OpUpdateStatus 4 ''p2'' FAILED (Some ''boom'') None]"

definition diverging_ops :: "repo_op list" where
  "diverging_ops =
     [OpCreate ''p1'' 1 sample_uuid (Some ''a@b.c''),
      OpUpdateStatus 2 ''p1'' FAILED (Some ''boom'') None,
      OpUpdateStatus 3 ''p1'' COMPLETED None None]"

section \<open>Shared lemmas\<close>

lemma ValidationStatus_of_value [simp]: "ValidationStatus_of (status_value st) = Some st"
  by (cases st) (simp_all add: ValidationStatus_of_def)

section \<open>What the format predicate accepts\<close>

lemma of_char_lower: "(of_char (py_lower_char c) :: nat) =
   (let n = of_char c in if (65 \<le> n \<and> n \<le> 90) \<or> (192 \<le> n \<and> n \<le> 222 \<and> n \<noteq> 215) then n + 32 else n)"
  by (simp add: py_lower_char_def Let_def)

lemma of_char_upper: "(of_char (py_upper_char c) :: nat) =
   (let n = of_char c in if (97 \<le> n \<and> n \<le> 122) \<or> (224 \<le> n \<and> n \<le> 254 \<and> n \<noteq> 247) then n - 32 else n)"
  by (auto simp add: py_upper_char_def Let_def)

lemma hex_set_matches': "set_matches True [(CHR ''0'', CHR ''9''), (CHR ''a'', CHR ''f'')] c = is_hex_digit c"
proof -
  define n where "n = (of_char c :: nat)"
  have L: "(of_char (py_lower_char c) :: nat)
             = (if (65 \<le> n \<and> n \<le> 90) \<or> (192 \<le> n \<and> n \<le> 222 \<and> n \<noteq> 215) then n + 32 else n)"
    unfolding n_def using of_char_lower [of c] by (simp only: Let_def)
  have U: "(of_char (py_upper_char c) :: nat)
             = (if (97 \<le> n \<and> n \<le> 122) \<or> (224 \<le> n \<and> n \<le> 254 \<and> n \<noteq> 247) then n - 32 else n)"
    unfolding n_def using of_char_upper [of c] by (simp only: Let_def)
  have "set_matches True [(CHR ''0'', CHR ''9''), (CHR ''a'', CHR ''f'')] c
          = ((48 \<le> n \<and> n \<le> 57 \<or> 97 \<le> n \<and> n \<le> 102)
             \<or> (48 \<le> (of_char (py_lower_char c) :: nat) \<and> (of_char (py_lower_char c) :: nat) \<le> 57
                 \<or> 97 \<le> (of_char (py_lower_char c) :: nat) \<and> (of_char (py_lower_char c) :: nat) \<le> 102)
             \<or> (48 \<le> (of_char (py_upper_char c) :: nat) \<and> (of_char (py_upper_char c) :: nat) \<le> 57
                 \<or> 97 \<le> (of_char (py_upper_char c) :: nat) \<and> (of_char (py_upper_char c) :: nat) \<le> 102))"
    by (simp add: set_matches_def in_ranges_def n_def)
  moreover have "is_hex_digit c
          = (48 \<le> n \<and> n \<le> 57 \<or> 97 \<le> n \<and> n \<le> 102 \<or> 65 \<le> n \<and> n \<le> 70)"
    by (simp add: is_hex_digit_def in_ranges_def n_def)
  moreover have "((48 \<le> n \<and> n \<le> 57 \<or> 97 \<le> n \<and> n \<le> 102)
             \<or> (48 \<le> (of_char (py_lower_char c) :: nat) \<and> (of_char (py_lower_char c) :: nat) \<le> 57
                 \<or> 97 \<le> (of_char (py_lower_char c) :: nat) \<and> (of_char (py_lower_char c) :: nat) \<le> 102)
             \<or> (48 \<le> (of_char (py_upper_char c) :: nat) \<and> (of_char (py_upper_char c) :: nat) \<le> 57
                 \<or> 97 \<le> (of_char (py_upper_char c) :: nat) \<and> (of_char (py_upper_char c) :: nat) \<le> 102))
          = (48 \<le> n \<and> n \<le> 57 \<or> 97 \<le> n \<and> n \<le> 102 \<or> 65 \<le> n \<and> n \<le> 70)"
    unfolding L U by presburger
  ultimately show ?thesis by (simp only:)
qed

lemma hex_set_matches: "set_matches True [(CHR ''0'', CHR ''9''), (CHR ''a'', CHR ''f'')] = is_hex_digit"
  by (rule ext) (rule hex_set_matches')

lemma hyphen_matches: "lit_matches True (CHR ''-'') c = (c = CHR ''-'')"
proof -
  have "py_lower_char c = CHR ''-'' \<Longrightarrow> c = CHR ''-''"
  proof -
    assume a: "py_lower_char c = CHR ''-''"
    have "(of_char (py_lower_char c) :: nat) = 45" using a by simp
    then have "(of_char c :: nat) = 45" by (simp add: of_char_lower Let_def split: if_splits)
    then have "(of_char c :: nat) = of_char (CHR ''-'')" by simp
    then show ?thesis by (simp only: of_char_eq_iff)
  qed
  moreover have "py_lower_char (CHR ''-'') = CHR ''-''" by (simp add: py_lower_char_def)
  ultimately show ?thesis by (auto simp: lit_matches_def)
qed

lemma re_match_at_replicate:
  "re_match_at ic (replicate n (CharSet rs) @ items) pos s =
     (n \<le> length s \<and> list_all (set_matches ic rs) (take n s)
      \<and> re_match_at ic items (pos + n) (drop n s))"
proof (induction n arbitrary: pos s)
  case 0
  then show ?case by simp
next
  case (Suc n)
  then show ?case by (cases s) auto
qed

lemma re_match_at_Lit:
  "re_match_at ic (Lit l # items) pos s =
     (0 < length s \<and> lit_matches ic l (s ! 0) \<and> re_match_at ic items (Suc pos) (drop 1 s))"
  by (cases s) auto

lemma re_match_uuid_pattern:
  "re_match uuid_pattern True s =
     (36 \<le> length s
      \<and> list_all is_hex_digit (take 8 s) \<and> s ! 8 = CHR ''-''
      \<and> list_all is_hex_digit (take 4 (drop 9 s)) \<and> s ! 13 = CHR ''-''
      \<and> list_all is_hex_digit (take 4 (drop 14 s)) \<and> s ! 18 = CHR ''-''
      \<and> list_all is_hex_digit (take 4 (drop 19 s)) \<and> s ! 23 = CHR ''-''
      \<and> list_all is_hex_digit (take 12 (drop 24 s))
      \<and> (drop 36 s = [] \<or> drop 36 s = [CHR 0x0A]))"
  unfolding re_match_def uuid_pattern_def hex_set_def
  apply (simp add: re_match_at_replicate re_match_at_Lit hex_set_matches hyphen_matches del: replicate.simps replicate_Suc)
  apply (auto simp: nth_drop)
  done

lemma validate_uuid_format_accepts:
  "validate_uuid_format (Some s)
     = Inr (spec_uuid_shape s \<or> (\<exists>u. spec_uuid_shape u \<and> s = u @ [CHR 0x0A]))"
proof -
  have "re_match uuid_pattern True s
          = (spec_uuid_shape s \<or> (\<exists>u. spec_uuid_shape u \<and> s = u @ [CHR 0x0A]))"
  proof (cases "length s = 36")
    case True
    then show ?thesis
      by (auto simp: re_match_uuid_pattern spec_uuid_shape_def)
  next
    case False
    show ?thesis
    proof
      assume m: "re_match uuid_pattern True s"
      then have d: "drop 36 s = [CHR 0x0A]" and len: "36 \<le> length s"
        using False by (auto simp: re_match_uuid_pattern)
      define u where "u = take 36 s"
      have s: "s = u @ [CHR 0x0A]"
        using d append_take_drop_id [of 36 s] by (simp add: u_def)
      have lu: "length u = 36" using len by (simp add: u_def)
      have "spec_uuid_shape u"
        using m lu unfolding re_match_uuid_pattern spec_uuid_shape_def
        by (simp add: s nth_append)
      then show "spec_uuid_shape s \<or> (\<exists>u. spec_uuid_shape u \<and> s = u @ [CHR 0x0A])"
        using s by blast
    next
      assume "spec_uuid_shape s \<or> (\<exists>u. spec_uuid_shape u \<and> s = u @ [CHR 0x0A])"
      then obtain u where u: "spec_uuid_shape u" and s: "s = u @ [CHR 0x0A]"
        using False by (auto simp: spec_uuid_shape_def)
      have lu: "length u = 36" using u by (simp add: spec_uuid_shape_def)
      have t: "take 12 (drop 24 u) = drop 24 u" using lu by simp
      show "re_match uuid_pattern True s"
        using u lu unfolding re_match_uuid_pattern spec_uuid_shape_def s
        by (simp add: nth_append t)
    qed
  qed
  then show ?thesis by (simp add: validate_uuid_format_def)
qed

lemma spec_uuid_shape_accepted:
  "spec_uuid_shape u \<Longrightarrow> validate_uuid_format (Some u) = Inr True"
  by (simp add: validate_uuid_format_accepts)

lemma initiate_validation_rejected:
  "validate_uuid_format (Some u) = Inr False \<Longrightarrow>
     initiate_validation new_id now w u = (w, Inl (InvalidUuidFormatError u))"
  by (simp add: initiate_validation_def)

lemma initiate_validation_malformed:
  assumes "\<not> spec_uuid_shape u" and "\<forall>v. spec_uuid_shape v \<longrightarrow> u \<noteq> v @ [CHR 0x0A]"
  shows "initiate_validation new_id now w u = (w, Inl (InvalidUuidFormatError u))"
proof -
  have "validate_uuid_format (Some u) = Inr False"
    using assms by (auto simp: validate_uuid_format_accepts)
  then show ?thesis by (rule initiate_validation_rejected)
qed

lemma sample_uuid_shape: "spec_uuid_shape sample_uuid"
  by (simp add: sample_uuid_def spec_uuid_shape_def is_hex_digit_def in_ranges_def)

lemma sample_newline_accepted:
  "validate_uuid_format (Some (sample_uuid @ [CHR 0x0A])) = Inr True"
  using sample_uuid_shape by (simp add: validate_uuid_format_accepts)

lemma sample_newline_not_shape: "\<not> spec_uuid_shape (sample_uuid @ [CHR 0x0A])"
  by (simp add: spec_uuid_shape_def sample_uuid_def)

section \<open>The background step on a stored process\<close>

lemma process_update_status_known:
  assumes "processes w pid = Some p"
  shows "process_update_status now w pid st err res =
     (w\<lparr>calls := calls w @ [ProcessUpdateStatus pid st err res],
        processes := (processes w)(pid \<mapsto> p\<lparr>status := st, updated_at := Some now, error_message := err, result_data := res\<rparr>),
        history := history w @ [(processes w)(pid \<mapsto> p\<lparr>status := st, updated_at := Some now, error_message := err, result_data := res\<rparr>)]\<rparr>,
      Inr (p\<lparr>status := st, updated_at := Some now, error_message := err, result_data := res\<rparr>))"
  using assms
  by (cases p) (simp add: process_update_status_def inmem_update_status_def inmem_get_by_id_def Let_def)

lemma process_update_status_unknown:
  assumes "processes w pid = None"
  shows "process_update_status now w pid st err res =
     (w\<lparr>calls := calls w @ [ProcessUpdateStatus pid st err res]\<rparr>,
      Inl (ValidationProcessNotFoundError pid))"
  using assms
  by (simp add: process_update_status_def inmem_update_status_def inmem_get_by_id_def Let_def)

lemma perform_validation_unknown:
  assumes "processes w pid = None"
  shows "perform_validation t1 t2 t3 ts w pid =
     (w\<lparr>calls := calls w @ [ProcessUpdateStatus pid IN_PROGRESS None None,
          ProcessUpdateStatus pid FAILED (Some (exn_str (ValidationProcessNotFoundError pid))) None]\<rparr>,
      Inl (ValidationProcessNotFoundError pid))"
  using assms
  by (simp add: perform_validation_def validation_body_def process_update_status_unknown)

lemma perform_validation_known:
  assumes "processes w pid = Some p"
  shows "snd (perform_validation t1 t2 t3 ts w pid) = Inr ()
       \<and> processes (fst (perform_validation t1 t2 t3 ts w pid))
           = (processes w)(pid \<mapsto> finished t1 t2 t3 ts (enrollments w (uuid_str p)) p)
       \<and> history (fst (perform_validation t1 t2 t3 ts w pid))
           = history w @ [(processes w)(pid \<mapsto> started t1 p),
                          (processes w)(pid \<mapsto> finished t1 t2 t3 ts (enrollments w (uuid_str p)) p)]"
proof (cases "dict_truthy (enrollments w (uuid_str p))")
  case False
  then show ?thesis
    using assms
    by (simp add: perform_validation_def validation_body_def process_update_status_known
        process_get_by_id_def inmem_get_by_id_def enrollment_get_by_uuid_def finished_def started_def)
next
  case True
  show ?thesis
  proof (cases "build_result_data (started t1 p) (case enrollments w (uuid_str p) of Some d \<Rightarrow> d | None \<Rightarrow> []) ts")
    case (Inl e)
    then show ?thesis
      using assms True
      by (simp add: perform_validation_def validation_body_def process_update_status_known
          process_get_by_id_def inmem_get_by_id_def enrollment_get_by_uuid_def finished_def started_def)
  next
    case (Inr payload)
    then show ?thesis
      using assms True
      by (simp add: perform_validation_def validation_body_def process_update_status_known
          process_get_by_id_def inmem_get_by_id_def enrollment_get_by_uuid_def finished_def started_def)
  qed
qed

lemma started_invariant: "process_invariant (started t1 p)"
  by (simp add: process_invariant_def started_def)

lemma finished_invariant: "process_invariant (finished t1 t2 t3 ts d p)"
  by (simp add: process_invariant_def finished_def split: sum.splits)

lemma finished_terminal:
  "status (finished t1 t2 t3 ts d p) = COMPLETED \<or> status (finished t1 t2 t3 ts d p) = FAILED"
  by (simp add: finished_def split: sum.splits)

section \<open>The format predicate and a trailing newline\<close>

lemma validate_uuid_format_None:
  "validate_uuid_format None = Inl (TypeError ''expected string or bytes-like object'')"
  by (simp add: validate_uuid_format_def)

text \<open>
  Claim C1. The predicate is meant to accept exactly the strings of the 8-4-4-4-12
  shape and to raise a type error on \<open>None\<close>. It does raise on \<open>None\<close>, and it
  accepts every string of the shape (\<open>validate_uuid_format_accepts\<close>), but it also
  accepts a string of the shape followed by one newline: 37 characters, not of the shape.
\<close>

theorem validate_uuid_format_trailing_newline:
  "validate_uuid_format (Some (sample_uuid @ [CHR 0x0A])) = Inr True
   \<and> length (sample_uuid @ [CHR 0x0A]) = 37
   \<and> \<not> spec_uuid_shape (sample_uuid @ [CHR 0x0A])"
  by (simp add: sample_newline_accepted sample_newline_not_shape) (simp add: sample_uuid_def)

section \<open>The background step on an unknown process\<close>

text \<open>
  Claim C2. The step is meant to end with the status set, on every path, and to leave
  silently when the process is unknown. For a stored process it does end with a
  terminal status (\<open>perform_validation_known\<close>). For an unknown process identifier
  the first \<open>update_status\<close> raises, the handler's own \<open>update_status\<close> raises
  again, and that exception leaves the step; the store is unchanged.
\<close>

theorem perform_validation_unknown_process:
  "snd (perform_validation 1 2 3 sample_stamp empty_world ''missing'')
     = Inl (ValidationProcessNotFoundError ''missing'')
   \<and> processes (fst (perform_validation 1 2 3 sample_stamp empty_world ''missing''))
     = Map.empty
   \<and> calls (fst (perform_validation 1 2 3 sample_stamp empty_world ''missing''))
     = [ProcessUpdateStatus ''missing'' IN_PROGRESS None None,
        ProcessUpdateStatus ''missing'' FAILED (Some ''Validation process missing not found'') None]"
  by (simp add: perform_validation_def validation_body_def process_update_status_unknown empty_world_def)

section \<open>The repository applies any status\<close>

text \<open>
  Claim C3, as amended. \<open>update_status\<close> checks no transition rule in either backend:
  for a stored process the returned snapshot, which is also the one stored, has the
  requested status whatever the current status is; for an unknown process identifier
  the call fails with \<open>ValidationProcessNotFoundError\<close> and leaves the store as it was.
\<close>

theorem update_status_applies_any_status:
  assumes "ps pid = Some p" and "ps other = None" and "coll pid = Some d" and "coll other = None"
  shows "(\<exists>p'. inmem_update_status now ps pid st err res = (ps(pid \<mapsto> p'), Inr p')
              \<and> status p' = st)
       \<and> inmem_update_status now ps other st err res
           = (ps, Inl (ValidationProcessNotFoundError other))
       \<and> (\<exists>coll' p'. mongo_update_status now coll pid st err res = (coll', Inr p')
              \<and> status p' = st \<and> mongo_get_by_id coll' pid = Some p')
       \<and> mongo_update_status now coll other st err res
           = (coll, Inl (ValidationProcessNotFoundError other))"
  using assms
  by (simp add: inmem_update_status_def inmem_get_by_id_def mongo_update_status_def find_one_def
      update_one_def doc_to_process_def apply_set_def mongo_get_by_id_def Let_def)

theorem update_status_applies_any_status_witness:
  "(\<exists>p'. inmem_update_status 3 [''p1'' \<mapsto> sample_process] ''p1'' PENDING None None
            = ([''p1'' \<mapsto> sample_process](''p1'' \<mapsto> p'), Inr p') \<and> status p' = PENDING)
   \<and> inmem_update_status 3 [''p1'' \<mapsto> sample_process] ''p2'' PENDING None None
       = ([''p1'' \<mapsto> sample_process], Inl (ValidationProcessNotFoundError ''p2''))
   \<and> (\<exists>coll' p'. mongo_update_status 3 [''p1'' \<mapsto> sample_doc] ''p1'' PENDING None None
            = (coll', Inr p') \<and> status p' = PENDING \<and> mongo_get_by_id coll' ''p1'' = Some p')
   \<and> mongo_update_status 3 [''p1'' \<mapsto> sample_doc] ''p2'' PENDING None None
       = ([''p1'' \<mapsto> sample_doc], Inl (ValidationProcessNotFoundError ''p2''))"
  using update_status_applies_any_status
          [of "[''p1'' \<mapsto> sample_process]" "''p1''" sample_process "''p2''"
              "[''p1'' \<mapsto> sample_doc]" sample_doc 3 PENDING None None]
  by simp

text \<open>
  The claim as stated fails: a completed process is moved back to \<open>PENDING\<close>.
\<close>

theorem update_status_backward_counterexample:
  "map_option status
     (fst (inmem_update_status 9
             [''p1'' \<mapsto> \<lparr>process_id = ''p1'', uuid_str = ''u'', email = None, status = COMPLETED,
                          created_at = 1, updated_at = Some 2, error_message = None,
                          result_data = Some []\<rparr>]
             ''p1'' PENDING None None) ''p1'') = Some PENDING"
  by (simp add: inmem_update_status_def inmem_get_by_id_def Let_def)

section \<open>How the comparator classifies\<close>

lemma normalize_pair_agree:
  "(case normalize_pair c d of (x, y) \<Rightarrow> py_eq x y) = values_agree c d"
  by (cases c; cases d) (auto simp: normalize_pair_def values_agree_def)

lemma py_eq_plain:
  "plain v \<Longrightarrow> plain w \<Longrightarrow> py_eq v w = (v = w)"
proof (induction v arbitrary: w)
  case (VList xs)
  show ?case
  proof (cases "\<exists>ys. w = VList ys")
    case True
    then obtain ys where 1: "w = VList ys" by blast
    have "list_all plain xs" "list_all plain ys" using VList.prems 1 by simp_all
    then have "py_eq_list xs ys = (xs = ys)"
      using VList.IH
    proof (induction xs arbitrary: ys)
      case Nil
      then show ?case by auto
    next
      case (Cons x xs)
      then show ?case by (cases ys) auto
    qed
    then show ?thesis using 1 by simp
  next
    case False
    then show ?thesis by (cases w) auto
  qed
qed (auto split: pyval.splits)

lemma dict_set_fresh: "k \<notin> fst ` set d \<Longrightarrow> dict_set d k v = d @ [(k, v)]"
  by (induction d) auto

lemma compare_field_cases:
  "compare_field rec (anoms, mats, addl) (k, cv) =
     (if dict_get rec k = VNone then (anoms, mats, dict_set addl k cv)
      else if values_agree cv (dict_get rec k) then (anoms, mats @ [(k, dict_get rec k)], addl)
      else (anoms @ [(k, dict_get rec k, cv)], mats, addl))"
  using normalize_pair_agree [of cv "dict_get rec k"]
  by (auto simp: compare_field_def Let_def split: prod.splits)

lemma compare_loop:
  assumes "distinct (map fst ext)" and "fst ` set ext \<inter> fst ` set addl = {}"
  shows "foldl (compare_field rec) (anoms, mats, addl) ext =
     (anoms @ map (\<lambda>(k, cv). (k, dict_get rec k, cv))
                (filter (\<lambda>(k, cv). dict_get rec k \<noteq> VNone \<and> \<not> values_agree cv (dict_get rec k)) ext),
      mats @ map (\<lambda>(k, cv). (k, dict_get rec k))
                (filter (\<lambda>(k, cv). dict_get rec k \<noteq> VNone \<and> values_agree cv (dict_get rec k)) ext),
      addl @ filter (\<lambda>(k, cv). dict_get rec k = VNone) ext)"
  using assms
proof (induction ext arbitrary: anoms mats addl)
  case Nil
  then show ?case by simp
next
  case (Cons item ext)
  obtain k cv where item: "item = (k, cv)" by (cases item)
  have fresh: "k \<notin> fst ` set addl" using Cons.prems(2) item by auto
  have d: "distinct (map fst ext)" and nk: "k \<notin> fst ` set ext"
    using Cons.prems(1) item by auto
  have disj: "fst ` set ext \<inter> fst ` set addl = {}" using Cons.prems(2) by auto
  have disj': "fst ` set ext \<inter> fst ` set (addl @ [(k, cv)]) = {}" using disj nk by auto
  show ?case
  proof (cases "dict_get rec k = VNone")
    case True
    then show ?thesis
      using Cons.IH [OF d disj', of anoms mats]
      by (simp add: item compare_field_cases dict_set_fresh [OF fresh])
  next
    case False
    then show ?thesis
      using Cons.IH [OF d disj]
      by (simp add: item compare_field_cases)
  qed
qed

lemma py_eq_numbers:
  "py_eq (VBool True) (VInt 1)"
  "py_eq (VInt 1) (VFloat (FDyadic 1 0))"
  "py_eq (VBool True) (VFloat (FDyadic 1 0))"
  "py_eq (VFloat (FDyadic 1 1)) (VInt 2)"
  "py_eq (VFloat FNegZero) (VInt 0)"
  "\<not> py_eq (VFloat FNaN) (VFloat FNaN)"
  by (simp_all add: dyadic_eq_def)

text \<open>
  Claim C4, as amended. For a stored record and an extracted field map (a dictionary,
  so its keys are distinct) whose values are \<open>None\<close>, booleans, integers, floats,
  strings, dates, lists and dictionaries of such values, the comparator classifies every
  extracted key, in order: a key whose stored value is \<open>None\<close> or absent goes to the
  additional information with its extracted value; any other key is a match, holding the
  stored value, when the two values agree, and an anomaly, holding the stored and the
  extracted value as they are, when they do not. Two strings agree when equal after
  trimming and lower-casing; any other pair agrees when Python's \<open>==\<close> holds on the
  values as they are. That is not structural equality: numbers are compared by their
  numeric value across booleans, integers and floats, so \<open>True\<close>, \<open>1\<close> and
  \<open>1.0\<close> are equal to each other and not a number is unequal to itself
  (\<open>py_eq_numbers\<close>), and the order of a dictionary's keys does not count; without
  booleans, floats and dictionaries it is equality of values (\<open>py_eq_plain\<close>). The
  anomaly count is the number of anomalies.
\<close>

theorem compare_student_data_partition:
  assumes "get_student_by_id student_id = Some rec" and "distinct (map fst extracted)"
  shows "\<exists>r. compare_student_data get_student_by_id student_id extracted = CompareSuccess r
       \<and> matches r = map (\<lambda>(k, cv). (k, dict_get rec k))
            (filter (\<lambda>(k, cv). dict_get rec k \<noteq> VNone \<and> values_agree cv (dict_get rec k)) extracted)
       \<and> anomalies r = map (\<lambda>(k, cv). (k, dict_get rec k, cv))
            (filter (\<lambda>(k, cv). dict_get rec k \<noteq> VNone \<and> \<not> values_agree cv (dict_get rec k)) extracted)
       \<and> additional_info r = filter (\<lambda>(k, cv). dict_get rec k = VNone) extracted
       \<and> total_anomalies r = length (anomalies r)"
  using assms compare_loop [of extracted "[]" rec "[]" "[]"]
  by (simp add: compare_student_data_def)

theorem compare_student_data_partition_witness:
  "\<exists>r. compare_student_data sample_students ''s1''
          [(''name'', VStr ''John Doe''), (''middle_name'', VStr ''Ann''),
           (''grade'', VFloat (FDyadic 1 0)), (''nickname'', VStr ''JD'')]
        = CompareSuccess r
      \<and> matches r = [(''grade'', VInt 1)]
      \<and> anomalies r = [(''name'', VStr ''Jane Doe'', VStr ''John Doe'')]
      \<and> additional_info r = [(''middle_name'', VStr ''Ann''), (''nickname'', VStr ''JD'')]
      \<and> total_anomalies r = 1"
  using compare_student_data_partition
          [of sample_students "''s1''"
              "[(''name'', VStr ''Jane Doe''), (''grade'', VInt 1), (''nickname'', VNone)]"
              "[(''name'', VStr ''John Doe''), (''middle_name'', VStr ''Ann''),
                (''grade'', VFloat (FDyadic 1 0)), (''nickname'', VStr ''JD'')]"]
  by (auto simp: sample_students_def dict_get_def values_agree_def py_lower_def py_strip_def
      py_lower_char_def py_isspace_def dyadic_eq_def)

text \<open>
  The claim as stated fails where it asks for strict structural equality: the stored
  integer 1 and the extracted \<open>True\<close> are different values and are reported as a
  match.
\<close>

theorem compare_bool_int_counterexample:
  "compare_student_data sample_students ''s1'' [(''grade'', VBool True)]
     = CompareSuccess
         \<lparr>mongodb_record = [(''name'', VStr ''Jane Doe''), (''grade'', VInt 1), (''nickname'', VNone)],
          certificate_data = [(''grade'', VBool True)],
          matches = [(''grade'', VInt 1)], anomalies = [], additional_info = [],
          total_anomalies = 0\<rparr>
   \<and> VBool True \<noteq> VInt 1"
  by (simp add: compare_student_data_def sample_students_def compare_field_def dict_get_def
      normalize_pair_def)

section \<open>The invariant along the background step\<close>

text \<open>
  Claim C5. Every snapshot the background step stores satisfies the invariant of the
  process: a terminal status comes with exactly one of the error message and the result
  payload, the status \<open>IN_PROGRESS\<close> with neither. The step leaves the earlier history
  and every other process as they were; on a stored process it stores two snapshots and
  ends in \<open>COMPLETED\<close> or \<open>FAILED\<close>.
\<close>

theorem perform_validation_keeps_invariant:
  "take (length (history w)) (history (fst (perform_validation t1 t2 t3 ts w pid))) = history w
   \<and> (\<forall>ps \<in> set (drop (length (history w)) (history (fst (perform_validation t1 t2 t3 ts w pid)))).
         (\<exists>p. ps pid = Some p \<and> process_invariant p)
         \<and> (\<forall>q. q \<noteq> pid \<longrightarrow> ps q = processes w q))
   \<and> (processes w pid \<noteq> None \<longrightarrow>
         length (history (fst (perform_validation t1 t2 t3 ts w pid))) = length (history w) + 2
         \<and> (\<exists>p. processes (fst (perform_validation t1 t2 t3 ts w pid)) pid = Some p
                \<and> process_invariant p \<and> (status p = COMPLETED \<or> status p = FAILED)))"
proof (cases "processes w pid")
  case None
  then show ?thesis by (simp add: perform_validation_unknown)
next
  case (Some p)
  then show ?thesis
    by (simp add: perform_validation_known started_invariant finished_invariant finished_terminal)
qed

theorem perform_validation_keeps_invariant_witness:
  "list_all (\<lambda>ps. \<exists>p. ps ''p1'' = Some p \<and> process_invariant p)
     (history (fst (perform_validation 2 3 4 sample_stamp sample_world ''p1'')))
   \<and> length (history (fst (perform_validation 2 3 4 sample_stamp sample_world ''p1''))) = 2
   \<and> map_option status (processes (fst (perform_validation 2 3 4 sample_stamp sample_world ''p1'')) ''p1'')
       = Some COMPLETED"
proof -
  have k: "processes sample_world ''p1'' = Some pending_process"
    by (simp add: sample_world_def)
  have e: "enrollments sample_world (uuid_str pending_process) = Some sample_enrollment"
    by (simp add: sample_world_def pending_process_def)
  have h: "history sample_world = []"
    by (simp add: sample_world_def)
  have c: "status (finished 2 3 4 sample_stamp (Some sample_enrollment) pending_process) = COMPLETED"
    by (simp add: finished_def dict_truthy_def sample_enrollment_def build_result_data_def
        dict_get_default_def py_len_def py_get_method_def Let_def)
  show ?thesis
    using perform_validation_keeps_invariant [of sample_world 2 3 4 sample_stamp "''p1''"] k
    by (simp add: h list_all_iff perform_validation_known e c)
qed

section \<open>Initiating a validation\<close>

text \<open>
  Claim C6. For an identifier of the valid shape for which the enrollment repository
  returns \<open>None\<close>, \<open>initiate_validation\<close> raises \<open>EnrollmentNotFoundError\<close>; the
  only repository call is the lookup of the enrollment, so \<open>create\<close> is not called, and
  the process store, its history and the scheduled tasks are unchanged.
\<close>

theorem initiate_validation_subject_not_found:
  assumes "spec_uuid_shape u" and "enrollments w u = None"
  shows "snd (initiate_validation new_id now w u) = Inl (EnrollmentNotFoundError u)
       \<and> processes (fst (initiate_validation new_id now w u)) = processes w
       \<and> calls (fst (initiate_validation new_id now w u)) = calls w @ [EnrollmentGetByUuid u]
       \<and> history (fst (initiate_validation new_id now w u)) = history w
       \<and> scheduled (fst (initiate_validation new_id now w u)) = scheduled w"
  using assms
  by (simp add: initiate_validation_def spec_uuid_shape_accepted enrollment_get_by_uuid_def
      dict_truthy_def)

theorem initiate_validation_subject_not_found_witness:
  "snd (initiate_validation ''p1'' 7 empty_world sample_uuid) = Inl (EnrollmentNotFoundError sample_uuid)
   \<and> processes (fst (initiate_validation ''p1'' 7 empty_world sample_uuid)) = Map.empty
   \<and> calls (fst (initiate_validation ''p1'' 7 empty_world sample_uuid)) = [EnrollmentGetByUuid sample_uuid]"
  using initiate_validation_subject_not_found [of sample_uuid empty_world "''p1''" 7]
  by (simp add: sample_uuid_shape empty_world_def)

text \<open>
  Claim C7. A malformed identifier is meant to fail with \<open>InvalidUuidFormatError\<close>
  before any repository is called. That holds for every malformed identifier but one
  kind (\<open>initiate_validation_malformed\<close>): an identifier of the valid shape followed
  by a newline is malformed and passes the predicate, so the enrollment repository is
  called and the failure is \<open>EnrollmentNotFoundError\<close>.
\<close>

theorem initiate_validation_trailing_newline:
  "snd (initiate_validation ''p1'' 7 empty_world (sample_uuid @ [CHR 0x0A]))
     = Inl (EnrollmentNotFoundError (sample_uuid @ [CHR 0x0A]))
   \<and> calls (fst (initiate_validation ''p1'' 7 empty_world (sample_uuid @ [CHR 0x0A])))
     = [EnrollmentGetByUuid (sample_uuid @ [CHR 0x0A])]
   \<and> \<not> spec_uuid_shape (sample_uuid @ [CHR 0x0A])"
  by (simp add: initiate_validation_def sample_newline_accepted sample_newline_not_shape
      enrollment_get_by_uuid_def dict_truthy_def empty_world_def)

section \<open>The construction policy at start-up\<close>

text \<open>
  Claim C8. The start of the application first builds the service with the durable
  process repository; when that construction raises, it builds the service with the
  in-memory process repository and the durable enrollment repository; when the second
  construction raises as well, the start fails with a \<open>RuntimeError\<close> and nothing
  else is tried.
\<close>

theorem lifespan_startup_policy:
  "lifespan_startup c =
     (if mongo_enrollment_ctor c = None \<and> mongo_process_ctor c = None
      then Inr \<lparr>enrollment_repository = MongoEnrollmentRepository,
                process_repository = MongoValidationProcessRepository\<rparr>
      else if hybrid_enrollment_ctor c = None \<and> hybrid_process_ctor c = None
      then Inr \<lparr>enrollment_repository = MongoEnrollmentRepository,
                process_repository = InMemoryValidationProcessRepository\<rparr>
      else Inl (RuntimeError ''Unable to initialize any validation service backend''))"
  by (simp add: lifespan_startup_def create_mongo_service_def create_hybrid_service_def
      split: option.splits)

section \<open>The two process repositories compared\<close>

lemma repo_equiv_empty: "repo_equiv Map.empty Map.empty"
  by (simp add: repo_equiv_def)

lemma repo_equiv_absent: "repo_equiv ps coll \<Longrightarrow> coll pid = None \<Longrightarrow> ps pid = None"
  unfolding repo_equiv_def by (drule spec [of _ pid]) simp

lemma repo_equiv_present:
  "repo_equiv ps coll \<Longrightarrow> coll pid = Some doc \<Longrightarrow>
     doc_to_process doc \<noteq> None \<and> ps pid = doc_to_process doc"
  unfolding repo_equiv_def by (drule spec [of _ pid]) simp

lemma repo_equiv_get: "repo_equiv ps coll \<Longrightarrow> inmem_get_by_id ps pid = mongo_get_by_id coll pid"
  by (cases "coll pid")
     (auto simp: inmem_get_by_id_def mongo_get_by_id_def find_one_def
       dest: repo_equiv_absent repo_equiv_present)

lemma repo_equiv_create:
  assumes "repo_equiv ps coll"
  shows "snd (inmem_create new_id now ps u em) = snd (mongo_create new_id now coll u em)
       \<and> repo_equiv (fst (inmem_create new_id now ps u em)) (fst (mongo_create new_id now coll u em))"
proof -
  have "repo_equiv (fst (inmem_create new_id now ps u em)) (fst (mongo_create new_id now coll u em))"
    unfolding repo_equiv_def
  proof
    fix pid
    show "case fst (mongo_create new_id now coll u em) pid of
            None \<Rightarrow> fst (inmem_create new_id now ps u em) pid = None
          | Some doc \<Rightarrow> doc_to_process doc \<noteq> None
                        \<and> fst (inmem_create new_id now ps u em) pid = doc_to_process doc"
    proof (cases "pid = new_id")
      case True
      then show ?thesis
        by (simp add: inmem_create_def mongo_create_def insert_one_def Let_def
            doc_to_process_def ValidationStatus_of_def)
    next
      case False
      then show ?thesis
        using repo_equiv_absent [OF assms, of pid] repo_equiv_present [OF assms, of pid]
        by (cases "coll pid")
           (simp_all add: inmem_create_def mongo_create_def insert_one_def Let_def)
    qed
  qed
  then show ?thesis
    by (simp add: inmem_create_def mongo_create_def Let_def)
qed

lemma repo_equiv_update:
  assumes "repo_equiv ps coll" and "resupplied (OpUpdateStatus now pid st err res) ps"
  shows "snd (inmem_update_status now ps pid st err res) = snd (mongo_update_status now coll pid st err res)
       \<and> repo_equiv (fst (inmem_update_status now ps pid st err res))
                    (fst (mongo_update_status now coll pid st err res))"
proof (cases "coll pid")
  case None
  then have "ps pid = None" using assms(1) by (rule repo_equiv_absent [rotated])
  with None assms(1) show ?thesis
    by (simp add: inmem_update_status_def inmem_get_by_id_def mongo_update_status_def find_one_def)
next
  case (Some doc)
  then obtain p where p: "doc_to_process doc = Some p" "ps pid = Some p"
    using repo_equiv_present [OF assms(1), of pid doc] by auto
  from p(1) obtain st0 where st0: "ValidationStatus_of (d_status doc) = Some st0"
    by (auto simp: doc_to_process_def split: option.splits)
  have fields: "error_message p = d_error_message doc" "result_data p = d_result_data doc"
    "process_id p = d_process_id doc" "uuid_str p = d_uuid_str doc" "email p = d_email doc"
    "created_at p = d_created_at doc"
    using p(1) st0 by (auto simp: doc_to_process_def)
  have pre: "err \<noteq> None \<or> d_error_message doc = None" "res \<noteq> None \<or> d_result_data doc = None"
    using assms(2) p(2) fields by auto
  have e: "(case err of None \<Rightarrow> d_error_message doc | Some m \<Rightarrow> Some m) = err"
    using pre(1) by (cases err) auto
  have r: "(case res of None \<Rightarrow> d_result_data doc | Some m \<Rightarrow> Some m) = res"
    using pre(2) by (cases res) auto
  have res: "snd (inmem_update_status now ps pid st err res)
               = snd (mongo_update_status now coll pid st err res)"
    using Some p(2) fields
    by (simp add: inmem_update_status_def inmem_get_by_id_def mongo_update_status_def find_one_def
        update_one_def apply_set_def doc_to_process_def Let_def e r)
  have "repo_equiv (fst (inmem_update_status now ps pid st err res))
                   (fst (mongo_update_status now coll pid st err res))"
    unfolding repo_equiv_def
  proof
    fix q
    show "case fst (mongo_update_status now coll pid st err res) q of
            None \<Rightarrow> fst (inmem_update_status now ps pid st err res) q = None
          | Some doc \<Rightarrow> doc_to_process doc \<noteq> None
                        \<and> fst (inmem_update_status now ps pid st err res) q = doc_to_process doc"
    proof (cases "q = pid")
      case True
      then show ?thesis
        using Some p(2) fields
        by (simp add: inmem_update_status_def inmem_get_by_id_def mongo_update_status_def
            find_one_def update_one_def apply_set_def doc_to_process_def Let_def e r)
    next
      case False
      then show ?thesis
        using repo_equiv_absent [OF assms(1), of q] repo_equiv_present [OF assms(1), of q]
          Some p(2)
        by (cases "coll q")
           (simp_all add: inmem_update_status_def inmem_get_by_id_def mongo_update_status_def
             find_one_def update_one_def apply_set_def doc_to_process_def Let_def)
    qed
  qed
  with res show ?thesis by simp
qed

text \<open>
  Where the two repositories do agree: started from stores that hold the same
  processes, they return the same results and end with the same processes for every
  sequence of calls in which each \<open>update_status\<close> re-supplies what is stored.
\<close>

lemma backends_agree_when_resupplied:
  assumes "repo_equiv ps coll" and "all_resupplied ops ps"
  shows "snd (inmem_run ops ps) = snd (mongo_run ops coll)
       \<and> repo_equiv (fst (inmem_run ops ps)) (fst (mongo_run ops coll))"
  using assms
proof (induction ops arbitrary: ps coll)
  case Nil
  then show ?case by simp
next
  case (Cons op ops)
  have step: "snd (inmem_apply op ps) = snd (mongo_apply op coll)
            \<and> repo_equiv (fst (inmem_apply op ps)) (fst (mongo_apply op coll))"
  proof (cases op)
    case (OpCreate new_id now u em)
    then show ?thesis using repo_equiv_create [OF Cons.prems(1), of new_id now u em]
      by (simp add: split_beta)
  next
    case (OpGetById pid)
    then show ?thesis using repo_equiv_get [OF Cons.prems(1), of pid] Cons.prems(1) by simp
  next
    case (OpUpdateStatus now pid st err res)
    then show ?thesis using repo_equiv_update [OF Cons.prems(1), of now pid st err res] Cons.prems(2)
      by (simp add: split_beta)
  qed
  have rest: "all_resupplied ops (fst (inmem_apply op ps))"
    using Cons.prems(2) by simp
  from Cons.IH [OF conjunct2 [OF step] rest] step
  show ?case by (simp add: split_beta)
qed

lemma backends_agree_on_sample:
  "snd (inmem_run agreeing_ops Map.empty) = snd (mongo_run agreeing_ops Map.empty)"
proof -
  have "all_resupplied agreeing_ops Map.empty"
    by (simp add: agreeing_ops_def inmem_create_def inmem_update_status_def inmem_get_by_id_def Let_def)
  then show ?thesis
    using backends_agree_when_resupplied [OF repo_equiv_empty, of agreeing_ops] by simp
qed

text \<open>
  Where they do not: an \<open>update_status\<close> that omits the error message and the result
  payload clears both in the in-memory repository and keeps both in the durable one.
\<close>

lemma inmem_update_status_clears_omitted:
  assumes "ps pid = Some p"
  shows "\<exists>ps' p'. inmem_update_status now ps pid st None None = (ps', Inr p')
           \<and> error_message p' = None \<and> result_data p' = None"
  using assms by (simp add: inmem_update_status_def inmem_get_by_id_def Let_def)

lemma mongo_update_status_keeps_omitted:
  assumes "coll pid = Some doc"
  shows "\<exists>coll' p'. mongo_update_status now coll pid st None None = (coll', Inr p')
           \<and> error_message p' = d_error_message doc \<and> result_data p' = d_result_data doc"
  using assms
  by (simp add: mongo_update_status_def find_one_def update_one_def apply_set_def
      doc_to_process_def Let_def)

text \<open>
  Claim C9. The in-memory and the durable process repository are meant to be
  interchangeable: the same sequence of \<open>create\<close>, \<open>get_by_id\<close> and
  \<open>update_status\<close> calls, with the same identifiers and times, is meant to return the
  same processes from both, in particular when \<open>update_status\<close> is called without an
  error message and a result payload. They are not: after \<open>create\<close> and an
  \<open>update_status\<close> to \<open>FAILED\<close> with the message \<open>boom\<close>, an \<open>update_status\<close>
  to \<open>COMPLETED\<close> without a message returns a process with no error message from the
  in-memory repository and a process that still holds \<open>boom\<close> from the durable one.
\<close>

theorem backends_differ_on_omitted_field:
  "last (snd (inmem_run diverging_ops Map.empty))
     = Updated (Inr \<lparr>process_id = ''p1'', uuid_str = sample_uuid, email = Some ''a@b.c'',
                     status = COMPLETED, created_at = 1, updated_at = Some 3,
                     error_message = None, result_data = None\<rparr>)
   \<and> last (snd (mongo_run diverging_ops Map.empty))
     = Updated (Inr \<lparr>process_id = ''p1'', uuid_str = sample_uuid, email = Some ''a@b.c'',
                     status = COMPLETED, created_at = 1, updated_at = Some 3,
                     error_message = Some ''boom'', result_data = None\<rparr>)
   \<and> last (snd (inmem_run diverging_ops Map.empty)) \<noteq> last (snd (mongo_run diverging_ops Map.empty))"
  by (simp add: diverging_ops_def inmem_create_def inmem_update_status_def inmem_get_by_id_def
      mongo_create_def mongo_update_status_def find_one_def insert_one_def update_one_def
      apply_set_def doc_to_process_def ValidationStatus_of_def Let_def)

section \<open>What an update keeps and what it replaces\<close>

text \<open>
  Claim C10. An \<open>update_status\<close> of the in-memory repository on a stored process stores
  and returns a snapshot whose \<open>process_id\<close>, \<open>uuid_str\<close>, \<open>email\<close> and
  \<open>created_at\<close> are those of the previous snapshot, and whose \<open>error_message\<close> and
  \<open>result_data\<close> are exactly the arguments of the call, \<open>None\<close> when they are
  omitted: an earlier message or payload does not survive.
\<close>

theorem inmem_update_status_frame:
  assumes "ps pid = Some p"
  shows "\<exists>p'. inmem_update_status now ps pid st err res = (ps(pid \<mapsto> p'), Inr p')
           \<and> process_id p' = process_id p \<and> uuid_str p' = uuid_str p \<and> email p' = email p
           \<and> created_at p' = created_at p
           \<and> error_message p' = err \<and> result_data p' = res"
  using assms by (simp add: inmem_update_status_def inmem_get_by_id_def Let_def)

theorem inmem_update_status_frame_witness:
  "\<exists>p'. inmem_update_status 3 [''p1'' \<mapsto> sample_process] ''p1'' COMPLETED None None
           = ([''p1'' \<mapsto> sample_process](''p1'' \<mapsto> p'), Inr p')
         \<and> process_id p' = ''p1'' \<and> uuid_str p' = sample_uuid \<and> email p' = Some ''a@b.c''
         \<and> created_at p' = 1 \<and> error_message p' = None \<and> result_data p' = None"
  using inmem_update_status_frame
          [of "[''p1'' \<mapsto> sample_process]" "''p1''" sample_process 3 COMPLETED None None]
  by (auto simp: sample_process_def)

end
